theory Spec2Isabelle
  imports Complex_Main "HOL-Library.Multiset"
begin

section \<open>Values of the Python runtime\<close>

text \<open>
  A Python \<open>float\<close> is an IEEE double: a finite value (kept as the rational it denotes),
  the negative zero, the two infinities, or a NaN.
\<close>

datatype pyfloat = Fin rat | NegZero | PInf | NInf | NaN

text \<open>
  What \<open>json.loads\<close> produces: \<open>None\<close>, \<open>bool\<close>, \<open>int\<close> (unbounded), \<open>float\<close>, \<open>str\<close>,
  \<open>list\<close> and \<open>dict\<close> with string keys (an association list in insertion order).
\<close>

datatype json =
    JNull
  | JBool bool
  | JInt int
  | JFloat pyfloat
  | JStr string
  | JList "json list"
  | JDict "(string \<times> json) list"

text \<open>Exceptions carry the text that \<open>str(e)\<close> gives.\<close>

datatype exn =
    TypeError string
  | OverflowError string
  | External string

fun exn_str :: "exn \<Rightarrow> string" where
  "exn_str (TypeError m) = m"
| "exn_str (OverflowError m) = m"
| "exn_str (External m) = m"

subsection \<open>Doubles: rounding to nearest, ties to even\<close>

text \<open>\<open>int.bit_length\<close>: the number of binary digits of a positive integer.\<close>

function bit_length :: "int \<Rightarrow> int" where
  "bit_length n = (if n \<le> 0 then 0 else 1 + bit_length (n div 2))"
  by pat_completeness auto
termination
  by (relation "measure nat") auto

declare bit_length.simps [simp del]

definition pow2 :: "int \<Rightarrow> rat" where
  "pow2 e = (if 0 \<le> e then 2 ^ nat e else 1 / 2 ^ nat (- e))"

text \<open>\<open>ilog2 a\<close> is the binary exponent of a positive rational: the \<open>e\<close> with \<open>2^e \<le> a < 2^(e+1)\<close>.\<close>

definition ilog2 :: "rat \<Rightarrow> int" where
  "ilog2 a = (if 1 \<le> a then bit_length \<lfloor>a\<rfloor> - 1
              else - bit_length (\<lceil>1 / a\<rceil> - 1))"

definition round_half_even :: "rat \<Rightarrow> int" where
  "round_half_even q =
     (let f = \<lfloor>q\<rfloor>; d = q - of_int f
      in if d < 1 / 2 then f
         else if 1 / 2 < d then f + 1
         else if even f then f else f + 1)"

text \<open>
  The magnitude of a positive rational rounded to 53 significant bits, with the exponent
  bounded below by that of the subnormals (quantum \<open>2^-1074\<close>) and not bounded above.
\<close>

definition round_mag :: "rat \<Rightarrow> rat" where
  "round_mag a =
     (let e = max (ilog2 a) (- 1022); u = pow2 (e - 52)
      in of_int (round_half_even (a / u)) * u)"

definition dbl_overflow :: "rat \<Rightarrow> bool" where
  "dbl_overflow m \<longleftrightarrow> pow2 1024 \<le> m"

definition round_double :: "rat \<Rightarrow> pyfloat" where
  "round_double q =
     (if q = 0 then Fin 0
      else let m = round_mag \<bar>q\<bar>
           in if dbl_overflow m then (if 0 < q then PInf else NInf)
              else if m = 0 then (if 0 < q then Fin 0 else NegZero)
              else Fin (if 0 < q then m else - m))"

text \<open>\<open>float(n)\<close> for an \<open>int\<close>: correctly rounded, \<open>OverflowError\<close> beyond the doubles.\<close>

definition float_of_int :: "int \<Rightarrow> exn + pyfloat" where
  "float_of_int n =
     (if n = 0 then Inr (Fin 0)
      else if dbl_overflow (round_mag \<bar>of_int n\<bar>)
           then Inl (OverflowError ''int too large to convert to float'')
           else Inr (round_double (of_int n)))"

fun fabs :: "pyfloat \<Rightarrow> pyfloat" where
  "fabs (Fin q) = Fin \<bar>q\<bar>"
| "fabs NegZero = Fin 0"
| "fabs PInf = PInf"
| "fabs NInf = PInf"
| "fabs NaN = NaN"

fun fadd :: "pyfloat \<Rightarrow> pyfloat \<Rightarrow> pyfloat" where
  "fadd NaN _ = NaN"
| "fadd _ NaN = NaN"
| "fadd PInf NInf = NaN"
| "fadd NInf PInf = NaN"
| "fadd PInf _ = PInf"
| "fadd _ PInf = PInf"
| "fadd NInf _ = NInf"
| "fadd _ NInf = NInf"
| "fadd NegZero y = y"
| "fadd x NegZero = x"
| "fadd (Fin a) (Fin b) = round_double (a + b)"

text \<open>Division by the float \<open>2.0\<close>.\<close>

fun fhalf :: "pyfloat \<Rightarrow> pyfloat" where
  "fhalf (Fin q) = round_double (q / 2)"
| "fhalf x = x"

text \<open>\<open>x >= 0.0\<close> on floats; every comparison with a NaN is false.\<close>

fun fnonneg :: "pyfloat \<Rightarrow> bool" where
  "fnonneg (Fin q) \<longleftrightarrow> 0 \<le> q"
| "fnonneg NegZero \<longleftrightarrow> True"
| "fnonneg PInf \<longleftrightarrow> True"
| "fnonneg NInf \<longleftrightarrow> False"
| "fnonneg NaN \<longleftrightarrow> False"

subsection \<open>Truthiness, \<open>dict.get\<close>, \<open>or\<close>\<close>

fun float_truthy :: "pyfloat \<Rightarrow> bool" where
  "float_truthy (Fin q) \<longleftrightarrow> q \<noteq> 0"
| "float_truthy NegZero \<longleftrightarrow> False"
| "float_truthy _ \<longleftrightarrow> True"

text \<open>\<open>bool(v)\<close>: \<open>None\<close>, \<open>False\<close>, zero, the empty string, list and dict are false.\<close>

fun truthy :: "json \<Rightarrow> bool" where
  "truthy JNull \<longleftrightarrow> False"
| "truthy (JBool b) \<longleftrightarrow> b"
| "truthy (JInt i) \<longleftrightarrow> i \<noteq> 0"
| "truthy (JFloat f) \<longleftrightarrow> float_truthy f"
| "truthy (JStr s) \<longleftrightarrow> s \<noteq> []"
| "truthy (JList xs) \<longleftrightarrow> xs \<noteq> []"
| "truthy (JDict kvs) \<longleftrightarrow> kvs \<noteq> []"

text \<open>\<open>a or b\<close> on values.\<close>

definition por :: "json \<Rightarrow> json \<Rightarrow> json" where
  "por a b = (if truthy a then a else b)"

text \<open>\<open>d.get(k)\<close>: the value stored under \<open>k\<close>, \<open>None\<close> when the key is absent.\<close>

definition dict_get :: "(string \<times> json) list \<Rightarrow> string \<Rightarrow> json" where
  "dict_get kvs k = (case map_of kvs k of None \<Rightarrow> JNull | Some v \<Rightarrow> v)"

subsection \<open>\<open>str\<close> and \<open>repr\<close>\<close>

text \<open>
  The parts of the runtime that the repository calls and does not define: the \<open>repr\<close> of
  a float (the shortest decimal that reads back as the same double), the \<open>repr\<close> of a
  string (quoting and escaping), and \<open>json.loads\<close> (\<open>None\<close> where it raises).
\<close>

record runtime =
  float_repr :: "pyfloat \<Rightarrow> string"
  str_repr :: "string \<Rightarrow> string"
  loads :: "string \<Rightarrow> json option"

text \<open>The decimal digits of a natural number, as \<open>str\<close> prints them.\<close>

definition digit_char :: "nat \<Rightarrow> char" where
  "digit_char d = ''0123456789'' ! d"

function digits_of_nat :: "nat \<Rightarrow> string" where
  "digits_of_nat n =
     (if n < 10 then [digit_char n]
      else digits_of_nat (n div 10) @ [digit_char (n mod 10)])"
  by pat_completeness auto
termination
  by (relation "measure id") auto

declare digits_of_nat.simps [simp del]

definition int_repr :: "int \<Rightarrow> string" where
  "int_repr i = (if i < 0 then ''-'' @ digits_of_nat (nat (- i)) else digits_of_nat (nat i))"

text \<open>\<open>sep.join(parts)\<close> on strings.\<close>

fun join_str :: "string \<Rightarrow> string list \<Rightarrow> string" where
  "join_str sep [] = []"
| "join_str sep [x] = x"
| "join_str sep (x # y # ys) = x @ sep @ join_str sep (y # ys)"

fun py_repr :: "runtime \<Rightarrow> json \<Rightarrow> string" where
  "py_repr rt JNull = ''None''"
| "py_repr rt (JBool b) = (if b then ''True'' else ''False'')"
| "py_repr rt (JInt i) = int_repr i"
| "py_repr rt (JFloat f) = float_repr rt f"
| "py_repr rt (JStr s) = str_repr rt s"
| "py_repr rt (JList xs) = ''['' @ join_str '', '' (map (py_repr rt) xs) @ '']''"
| "py_repr rt (JDict kvs) =
     ''{'' @ join_str '', '' (map (\<lambda>kv. str_repr rt (fst kv) @ '': '' @ py_repr rt (snd kv)) kvs) @ ''}''"

text \<open>\<open>str(v)\<close>: a string is itself, every other value is its \<open>repr\<close>.\<close>

fun py_str :: "runtime \<Rightarrow> json \<Rightarrow> string" where
  "py_str rt (JStr s) = s"
| "py_str rt v = py_repr rt v"

text \<open>\<open>type(v).__name__\<close>, as error messages print it.\<close>

fun type_name :: "json \<Rightarrow> string" where
  "type_name JNull = ''NoneType''"
| "type_name (JBool _) = ''bool''"
| "type_name (JInt _) = ''int''"
| "type_name (JFloat _) = ''float''"
| "type_name (JStr _) = ''str''"
| "type_name (JList _) = ''list''"
| "type_name (JDict _) = ''dict''"

text \<open>
  \<open>sep.join(items)\<close> on a list of values: \<open>TypeError\<close> at the first item that is not a
  string (\<open>i\<close> is the index of the head of the list).
\<close>

fun join_items :: "nat \<Rightarrow> json list \<Rightarrow> exn + string list" where
  "join_items i [] = Inr []"
| "join_items i (JStr s # xs) =
     (case join_items (Suc i) xs of Inl e \<Rightarrow> Inl e | Inr ss \<Rightarrow> Inr (s # ss))"
| "join_items i (v # xs) =
     Inl (TypeError (''sequence item '' @ digits_of_nat i @ '': expected str instance, ''
                     @ type_name v @ '' found''))"

definition py_join :: "string \<Rightarrow> json list \<Rightarrow> exn + string" where
  "py_join sep xs = (case join_items 0 xs of Inl e \<Rightarrow> Inl e | Inr ss \<Rightarrow> Inr (join_str sep ss))"

section \<open>Numeric Extractor\<close>

text \<open>
  The class \<open>\d\<close> of the pattern \<open>\d+(?:\.\d+)?\<close>. A \<open>string\<close> here is a list of characters
  with code points below 256; among these the decimal digits that \<open>\d\<close> matches on a
  \<open>str\<close> are exactly \<open>0\<close> to \<open>9\<close>, code points 48 to 57. Texts with digits of other scripts
  (which \<open>\d\<close> also matches, and \<open>float\<close> converts) are outside the strings modelled.
\<close>

definition is_digit :: "char \<Rightarrow> bool" where
  "is_digit c \<longleftrightarrow> (48::nat) \<le> of_char c \<and> (of_char c :: nat) \<le> 57"

text \<open>
  \<open>re.findall(r"\d+(?:\.\d+)?", s)\<close>: scanning from the left, each match is a maximal run
  of digits, extended by a point and a further maximal run of digits when the point is
  followed by a digit; the scan resumes right after the match.
\<close>

function findall_numbers :: "string \<Rightarrow> string list" where
  "findall_numbers [] = []"
| "findall_numbers (c # cs) =
     (if is_digit c then
        (let ds = takeWhile is_digit (c # cs); rest = dropWhile is_digit (c # cs)
         in case rest of
              p # d # r \<Rightarrow>
                if p = CHR ''.'' \<and> is_digit d
                then (ds @ [p] @ takeWhile is_digit (d # r)) # findall_numbers (dropWhile is_digit (d # r))
                else ds # findall_numbers rest
            | _ \<Rightarrow> ds # findall_numbers rest)
      else findall_numbers cs)"
  by pat_completeness auto
termination
proof (relation "measure length", simp_all, goal_cases)
  case (1 c cs x xa x21 x22)
  show ?case by (simp add: less_Suc_eq_le length_dropWhile_le)
next
  case (2 c cs x xa x22 x21a x22a)
  have "length (dropWhile is_digit x22a) \<le> length x22a"
    by (rule length_dropWhile_le)
  moreover have "length (CHR ''.'' # x21a # x22a) \<le> length cs"
    using 2(3) length_dropWhile_le [of is_digit cs] by simp
  ultimately show ?case by simp
next
  case (3 c cs x xa x21 x22 x21a x22a)
  show ?case by (simp add: less_Suc_eq_le length_dropWhile_le)
qed

declare findall_numbers.simps [simp del]

definition digit_val :: "char \<Rightarrow> nat" where
  "digit_val c = of_char c - 48"

definition digits_val :: "string \<Rightarrow> nat" where
  "digits_val ds = foldl (\<lambda>acc c. 10 * acc + digit_val c) 0 ds"

text \<open>The number that a match denotes: digits, then optionally a point and digits.\<close>

definition decimal_value :: "string \<Rightarrow> rat" where
  "decimal_value n =
     (let ip = takeWhile is_digit n; fp = drop 1 (dropWhile is_digit n)
      in of_nat (digits_val ip) + of_nat (digits_val fp) / 10 ^ length fp)"

text \<open>\<open>float(n)\<close> for a match: the nearest double, \<open>inf\<close> beyond the doubles, no error.\<close>

definition float_of_str :: "string \<Rightarrow> pyfloat" where
  "float_of_str n = round_double (decimal_value n)"

text \<open>\<open>sum(vs)\<close> on floats: the start value is the int \<open>0\<close>.\<close>

definition py_sum :: "pyfloat list \<Rightarrow> pyfloat" where
  "py_sum vs = foldl fadd (Fin 0) vs"

text \<open>
  \<open>_parse_number_from_string\<close>. A \<open>bool\<close> is an \<open>int\<close> to \<open>isinstance\<close>. The conversion of a
  number stands before the \<open>try\<close>; inside the \<open>try\<close> nothing raises, since every match is
  a decimal numeral, so the handler has no branch here.
\<close>

definition parse_number_from_string :: "runtime \<Rightarrow> json \<Rightarrow> exn + pyfloat" where
  "parse_number_from_string rt s =
     (case s of
        JNull \<Rightarrow> Inr (Fin 0)
      | JBool b \<Rightarrow> map_sum id fabs (float_of_int (if b then 1 else 0))
      | JInt i \<Rightarrow> map_sum id fabs (float_of_int i)
      | JFloat f \<Rightarrow> Inr (fabs f)
      | _ \<Rightarrow>
         (let s_clean = filter (\<lambda>c. c \<noteq> CHR '','') (py_str rt s);
              nums = findall_numbers s_clean
          in if nums = [] then Inr (Fin 0)
             else (let values = map float_of_str nums
                   in if 2 \<le> length values then Inr (fhalf (py_sum (take 2 values)))
                      else Inr (values ! 0))))"

section \<open>Shape Normalizer\<close>

text \<open>The dict that \<open>_normalize_analysis\<close> returns, its keys in the order of the source.\<close>

record normalized =
  damage_type :: json
  location :: json
  cost_inr :: pyfloat
  cost_usd :: pyfloat
  cost_yen :: pyfloat
  "notes" :: json

text \<open>Sequencing of steps that may raise: the first exception ends the computation.\<close>

definition ebind :: "exn + 'a \<Rightarrow> ('a \<Rightarrow> exn + 'b) \<Rightarrow> exn + 'b" where
  "ebind r f = (case r of Inl e \<Rightarrow> Inl e | Inr v \<Rightarrow> f v)"

text \<open>\<open>d.get(k) if isinstance(d, dict) else None\<close>.\<close>

definition entry_get :: "json \<Rightarrow> string \<Rightarrow> json" where
  "entry_get d k = (case d of JDict kvs \<Rightarrow> dict_get kvs k | _ \<Rightarrow> JNull)"

text \<open>
  The loop over the damages; the state is the pair of lists \<open>damage_types\<close> and \<open>locations\<close>.
  The formatted label \<open>f"{dtype} ({part})"\<close> renders both values as \<open>str\<close> does.
\<close>

fun scan_damages :: "runtime \<Rightarrow> json list \<Rightarrow> json list \<times> json list \<Rightarrow> json list \<times> json list" where
  "scan_damages rt [] acc = acc"
| "scan_damages rt (d # ds) (damage_types, locations) =
     (let part = entry_get d ''part''; dtype = entry_get d ''damage_type''
      in if truthy dtype \<and> truthy part then
           scan_damages rt ds
             (damage_types @ [JStr (py_str rt dtype @ '' ('' @ py_str rt part @ '')'')],
              locations @ [part])
         else if truthy dtype then scan_damages rt ds (damage_types @ [dtype], locations)
         else if truthy part then scan_damages rt ds (damage_types, locations @ [part])
         else scan_damages rt ds (damage_types, locations))"

text \<open>The fallback branch: a single value becomes a one-element list of its \<open>str\<close>.\<close>

definition as_items :: "runtime \<Rightarrow> json \<Rightarrow> json list" where
  "as_items rt v =
     (if truthy v then (case v of JList xs \<Rightarrow> xs | _ \<Rightarrow> [JStr (py_str rt v)]) else [])"

text \<open>Lines 90 to 120: the lists \<open>damage_types\<close> and \<open>locations\<close>.\<close>

definition damage_fields :: "runtime \<Rightarrow> (string \<times> json) list \<Rightarrow> json list \<times> json list" where
  "damage_fields rt raw =
     (let damages = por (por (dict_get raw ''damages'') (dict_get raw ''damage'')) (JList [])
      in case damages of
           JList (d # ds) \<Rightarrow> scan_damages rt (d # ds) ([], [])
         | _ \<Rightarrow>
            (as_items rt (por (dict_get raw ''damage_type'') (dict_get raw ''damage'')),
             as_items rt (por (dict_get raw ''location'') (dict_get raw ''part''))))"

text \<open>A list of exactly one element is replaced by that element.\<close>

fun collapse_single :: "json \<Rightarrow> json" where
  "collapse_single (JList [x]) = x"
| "collapse_single v = v"

definition damage_type_out :: "(string \<times> json) list \<Rightarrow> json list \<Rightarrow> json" where
  "damage_type_out raw damage_types =
     collapse_single
       (if damage_types \<noteq> [] then JList damage_types
        else por (dict_get raw ''damage_type'') (JStr ''Unknown''))"

definition location_out :: "(string \<times> json) list \<Rightarrow> json list \<Rightarrow> exn + json" where
  "location_out raw locations =
     (if locations \<noteq> [] then map_sum id JStr (py_join '', '' locations)
      else Inr (por (dict_get raw ''location'') (JStr [])))"

text \<open>Lines 130 to 141: the three raw cost values \<open>(usd_raw, inr_raw, jpy_raw)\<close>.\<close>

definition cost_raws :: "(string \<times> json) list \<Rightarrow> json \<times> json \<times> json" where
  "cost_raws raw =
     (let est = por (por (dict_get raw ''estimated_cost'') (dict_get raw ''estimatedCosts'')) (JDict [])
      in case est of
           JDict e \<Rightarrow>
             (por (por (dict_get e ''usd'') (dict_get e ''USD'')) (dict_get e ''dollars''),
              por (dict_get e ''inr'') (dict_get e ''INR''),
              por (por (dict_get e ''jpy'') (dict_get e ''JPY'')) (dict_get e ''yen''))
         | _ \<Rightarrow>
             (por (por (dict_get raw ''cost_usd'') (dict_get raw ''costUSD'')) (dict_get raw ''usd''),
              por (por (dict_get raw ''cost_inr'') (dict_get raw ''costINR'')) (dict_get raw ''inr''),
              por (por (dict_get raw ''cost_yen'') (dict_get raw ''costJPY'')) (dict_get raw ''jpy'')))"

definition notes_out :: "(string \<times> json) list \<Rightarrow> json" where
  "notes_out raw =
     por (por (por (dict_get raw ''notes'') (dict_get raw ''note'')) (dict_get raw ''raw_output''))
         (JStr [])"

text \<open>
  \<open>_normalize_analysis\<close>. The steps that may raise run in the order of the source: the join
  of the locations, then the three costs (usd, inr, yen).
\<close>

definition normalize_analysis :: "runtime \<Rightarrow> json \<Rightarrow> exn + normalized" where
  "normalize_analysis rt raw =
     (case raw of
        JDict kvs \<Rightarrow>
          (case damage_fields rt kvs of (damage_types, locations) \<Rightarrow>
           case cost_raws kvs of (usd_raw, inr_raw, jpy_raw) \<Rightarrow>
             ebind (location_out kvs locations) (\<lambda>loc.
             ebind (parse_number_from_string rt usd_raw) (\<lambda>usd.
             ebind (parse_number_from_string rt inr_raw) (\<lambda>inr.
             ebind (parse_number_from_string rt jpy_raw) (\<lambda>yen.
               Inr \<lparr>damage_type = damage_type_out kvs damage_types,
                    location = loc,
                    cost_inr = inr, cost_usd = usd, cost_yen = yen,
                    notes = notes_out kvs\<rparr>)))))
      | _ \<Rightarrow>
          Inr \<lparr>damage_type = JStr ''Unknown'', location = JStr [],
               cost_inr = Fin 0, cost_usd = Fin 0, cost_yen = Fin 0,
               notes = JStr (py_str rt raw)\<rparr>)"

section \<open>Decode step of the model client\<close>

text \<open>
  \<open>re.search(r"\{[\s\S]*\}", text)\<close>: the match starts at the first opening brace and, the
  star being greedy, ends at the last closing brace after it; there is no match when no
  closing brace follows the first opening brace.
\<close>

definition brace_span :: "string \<Rightarrow> string option" where
  "brace_span text =
     (let t = dropWhile (\<lambda>c. c \<noteq> CHR ''{'') text
      in if t \<noteq> [] \<and> CHR ''}'' \<in> set t
         then Some (rev (dropWhile (\<lambda>c. c \<noteq> CHR ''}'') (rev t)))
         else None)"

definition raw_output :: "string \<Rightarrow> json" where
  "raw_output text = JDict [(''raw_output'', JStr text)]"

text \<open>Lines 44 to 56 of \<open>analyze_damage_bytes\<close>: what is returned for the model's text.\<close>

definition decode :: "runtime \<Rightarrow> string \<Rightarrow> json" where
  "decode rt text =
     (case loads rt text of
        Some v \<Rightarrow> v
      | None \<Rightarrow>
         (case brace_span text of
            Some m \<Rightarrow> (case loads rt m of Some v \<Rightarrow> v | None \<Rightarrow> raw_output text)
          | None \<Rightarrow> raw_output text))"

text \<open>
  \<open>analyze_damage_bytes\<close>: the call of the model is outside the \<open>try\<close>, so its exception
  propagates; its result is the text of the response.
\<close>

definition analyze_damage_bytes :: "runtime \<Rightarrow> exn + string \<Rightarrow> exn + json" where
  "analyze_damage_bytes rt generated = map_sum id (decode rt) generated"

section \<open>Storage and the two endpoints\<close>

text \<open>
  A row of the table \<open>analysis\<close>. The columns \<open>damage_type\<close>, \<open>location\<close> and the three
  costs carry the prefix \<open>row_\<close> here, \<open>id\<close> is \<open>row_id\<close>. The table has no column for
  the notes.
\<close>

record Analysis =
  row_id :: nat
  image_path :: string
  row_damage_type :: string
  row_location :: string
  row_cost_inr :: pyfloat
  row_cost_usd :: pyfloat
  row_cost_yen :: pyfloat
  created_at :: int

text \<open>The state: the rows of the table in the order of insertion, and the upload directory.\<close>

record store =
  rows :: "Analysis list"
  uploads :: "(string \<times> string) list"

text \<open>
  What the collaborators do during one request: the outcome of reading the upload, of
  \<open>os.path.splitext(file.filename)[1]\<close>, the fresh \<open>uuid4().hex\<close>, the outcome of writing
  the file, of the model call (\<open>response.text\<close>), of \<open>db.commit()\<close> with the clock reading
  \<open>datetime.utcnow()\<close> taken for the default of \<open>created_at\<close>, of \<open>db.refresh(entry)\<close>, and
  how the engine binds a value that is not a string to a \<open>String\<close> column.
\<close>

record env =
  read_res :: "exn + string"
  ext_res :: "exn + string"
  uuid_hex :: string
  write_res :: "exn option"
  generate_res :: "exn + string"
  bind_text :: "json \<Rightarrow> exn + string"
  commit_res :: "exn option"
  now :: int
  refresh_res :: "exn option"

text \<open>The body of the response, under its key \<open>analysis\<close>.\<close>

datatype payload = Result normalized string | ErrorPayload string

datatype response = Response payload

text \<open>An integer primary key: one more than the largest key in the table.\<close>

definition next_id :: "Analysis list \<Rightarrow> nat" where
  "next_id rs = fold max (map row_id rs) 0 + 1"

text \<open>Line 182: \<open>damage_str\<close>.\<close>

definition damage_str :: "json \<Rightarrow> exn + string" where
  "damage_str v =
     (case v of JStr s \<Rightarrow> Inr s | JList xs \<Rightarrow> py_join '', '' xs | _ \<Rightarrow> Inr ''Unknown'')"

text \<open>\<open>float(x or 0.0)\<close> on a float.\<close>

definition float_or_zero :: "pyfloat \<Rightarrow> pyfloat" where
  "float_or_zero x = (if float_truthy x then x else Fin 0)"

definition raise_if :: "exn option \<Rightarrow> exn + unit" where
  "raise_if r = (case r of None \<Rightarrow> Inr () | Some e \<Rightarrow> Inl e)"

text \<open>
  The body of the \<open>try\<close> in \<open>analyze\<close>, as a computation on the state that stops at the
  first exception. The state it returns holds whatever had been written up to that
  point: the file once it is saved, the row once the commit has succeeded.
\<close>

definition analyze_body :: "runtime \<Rightarrow> env \<Rightarrow> store \<Rightarrow> (exn + normalized \<times> string) \<times> store" where
  "analyze_body rt ev st =
     (case read_res ev of Inl e \<Rightarrow> (Inl e, st) | Inr contents \<Rightarrow>
      case ext_res ev of Inl e \<Rightarrow> (Inl e, st) | Inr ext0 \<Rightarrow>
      let ext = (if ext0 \<noteq> [] then ext0 else ''.png'');
          unique_name = uuid_hex ev @ ext
      in
      case write_res ev of Some e \<Rightarrow> (Inl e, st) | None \<Rightarrow>
      let st1 = st\<lparr>uploads := uploads st @ [(unique_name, contents)]\<rparr> in
      case analyze_damage_bytes rt (generate_res ev) of Inl e \<Rightarrow> (Inl e, st1) | Inr raw \<Rightarrow>
      case normalize_analysis rt raw of Inl e \<Rightarrow> (Inl e, st1) | Inr n \<Rightarrow>
      let uploadedImage = ''/uploads/'' @ unique_name in
      case damage_str (damage_type n) of Inl e \<Rightarrow> (Inl e, st1) | Inr dstr \<Rightarrow>
      let location_str = por (location n) (JStr []) in
      case (case location_str of JStr s \<Rightarrow> Inr s | v \<Rightarrow> bind_text ev v) of
        Inl e \<Rightarrow> (Inl e, st1) | Inr lstr \<Rightarrow>
      case commit_res ev of Some e \<Rightarrow> (Inl e, st1) | None \<Rightarrow>
      let entry = \<lparr>row_id = next_id (rows st1), image_path = uploadedImage,
                   row_damage_type = dstr, row_location = lstr,
                   row_cost_inr = float_or_zero (cost_inr n),
                   row_cost_usd = float_or_zero (cost_usd n),
                   row_cost_yen = float_or_zero (cost_yen n),
                   created_at = now ev\<rparr>;
          st2 = st1\<lparr>rows := rows st1 @ [entry]\<rparr>
      in
      case refresh_res ev of Some e \<Rightarrow> (Inl e, st2) | None \<Rightarrow>
      (Inr (n, uploadedImage), st2))"

text \<open>\<open>analyze\<close>: the handler \<open>except Exception as e\<close> turns an exception into a payload.\<close>

definition analyze :: "runtime \<Rightarrow> env \<Rightarrow> store \<Rightarrow> response \<times> store" where
  "analyze rt ev st =
     (case analyze_body rt ev st of
        (Inr (n, img), st') \<Rightarrow> (Response (Result n img), st')
      | (Inl e, st') \<Rightarrow> (Response (ErrorPayload (exn_str e)), st'))"

text \<open>
  The query \<open>order_by(Analysis.created_at.desc()).all()\<close>: any arrangement of the stored
  rows in which the creation times do not increase; rows with equal times come in an
  order that the engine chooses.
\<close>

definition order_by_created_at_desc :: "Analysis list \<Rightarrow> Analysis list \<Rightarrow> bool" where
  "order_by_created_at_desc stored result \<longleftrightarrow>
     mset result = mset stored \<and> sorted_wrt (\<lambda>a b. created_at b \<le> created_at a) result"

text \<open>An entry of the history, with the keys of the source; \<open>isoformat\<close> renders the time.\<close>

record history_entry =
  h_id :: nat
  h_image_path :: string
  h_damage_type :: string
  h_location :: string
  h_cost_inr :: pyfloat
  h_cost_usd :: pyfloat
  h_cost_yen :: pyfloat
  h_created_at :: string

definition history_out :: "(int \<Rightarrow> string) \<Rightarrow> Analysis \<Rightarrow> history_entry" where
  "history_out isoformat r =
     \<lparr>h_id = row_id r, h_image_path = image_path r, h_damage_type = row_damage_type r,
      h_location = row_location r, h_cost_inr = row_cost_inr r, h_cost_usd = row_cost_usd r,
      h_cost_yen = row_cost_yen r, h_created_at = isoformat (created_at r)\<rparr>"

text \<open>\<open>get_history\<close>, given the rows that the query returned.\<close>

definition get_history :: "(int \<Rightarrow> string) \<Rightarrow> Analysis list \<Rightarrow> history_entry list" where
  "get_history isoformat result = map (history_out isoformat) result"

section \<open>Notions used in the statements\<close>

text \<open>The dict without the key \<open>k\<close>.\<close>

definition remove_key :: "string \<Rightarrow> (string \<times> json) list \<Rightarrow> (string \<times> json) list" where
  "remove_key k kvs = filter (\<lambda>kv. fst kv \<noteq> k) kvs"

text \<open>Two values that are equal, or both false in a condition.\<close>

definition same_or_falsy :: "json \<Rightarrow> json \<Rightarrow> bool" where
  "same_or_falsy a b \<longleftrightarrow> a = b \<or> (\<not> truthy a \<and> \<not> truthy b)"

text \<open>
  A runtime for closed examples: its \<open>json.loads\<close> accepts the text \<open>{}\<close> and nothing else,
  and neither \<open>repr\<close> matters where it is used.
\<close>

definition sample_runtime :: runtime where
  "sample_runtime =
     \<lparr>float_repr = (\<lambda>f. ''nan''), str_repr = (\<lambda>s. s),
      loads = (\<lambda>s. if s = ''{}'' then Some (JDict []) else None)\<rparr>"

text \<open>The empty table and upload directory.\<close>

definition empty_store :: store where
  "empty_store = \<lparr>rows = [], uploads = []\<rparr>"

text \<open>
  A request for closed examples: an upload \<open>photo.png\<close> whose steps all succeed up to the
  commit at clock reading \<open>1\<close>; the text that the model returns and the outcome of
  \<open>db.refresh\<close> are given.
\<close>

definition sample_env :: "string \<Rightarrow> exn option \<Rightarrow> env" where
  "sample_env model_text refreshed =
     \<lparr>read_res = Inr ''bytes'', ext_res = Inr ''.png'', uuid_hex = ''ab12'',
      write_res = None, generate_res = Inr model_text,
      bind_text = (\<lambda>v. Inl (External ''unsupported type'')),
      commit_res = None, now = 1, refresh_res = refreshed\<rparr>"

text \<open>A stored row for closed examples, with the given key and creation time.\<close>

definition sample_row :: "nat \<Rightarrow> int \<Rightarrow> Analysis" where
  "sample_row i t =
     \<lparr>row_id = i, image_path = ''/uploads/ab12.png'', row_damage_type = ''Unknown'',
      row_location = [], row_cost_inr = Fin 0, row_cost_usd = Fin 0, row_cost_yen = Fin 0,
      created_at = t\<rparr>"


section \<open>Properties of the Numeric Extractor\<close>

lemmas float_eval =
  round_double_def round_mag_def ilog2_def bit_length.simps pow2_def round_half_even_def
  dbl_overflow_def float_of_int_def Let_def

lemmas parse_eval =
  parse_number_from_string_def findall_numbers.simps float_of_str_def decimal_value_def
  is_digit_def digits_val_def digit_val_def py_sum_def

text \<open>
  Claim C2. The Numeric Extractor maps \<open>None\<close> to \<open>0.0\<close>, \<open>"50-100"\<close> to \<open>75.0\<close>, \<open>"1,234"\<close> to
  \<open>1234.0\<close>, \<open>"abc"\<close> to \<open>0.0\<close>, the number \<open>-5\<close> to \<open>5.0\<close>, and \<open>"10-20-30"\<close> to \<open>15.0\<close>, the mean
  of its first two matches only; none of these calls raises.
\<close>

theorem extract_value_equations:
  "parse_number_from_string rt JNull = Inr (Fin 0) \<and>
   parse_number_from_string rt (JStr ''50-100'') = Inr (Fin 75) \<and>
   parse_number_from_string rt (JStr ''1,234'') = Inr (Fin 1234) \<and>
   parse_number_from_string rt (JStr ''abc'') = Inr (Fin 0) \<and>
   parse_number_from_string rt (JInt (- 5)) = Inr (Fin 5) \<and>
   parse_number_from_string rt (JStr ''10-20-30'') = Inr (Fin 15)"
proof (intro conjI)
  show "parse_number_from_string rt JNull = Inr (Fin 0)"
    by (simp add: parse_number_from_string_def)
  show "parse_number_from_string rt (JStr ''50-100'') = Inr (Fin 75)"
    by (simp add: parse_eval float_eval)
  show "parse_number_from_string rt (JStr ''1,234'') = Inr (Fin 1234)"
    by (simp add: parse_eval float_eval)
  show "parse_number_from_string rt (JStr ''abc'') = Inr (Fin 0)"
    by (simp add: parse_eval)
  show "parse_number_from_string rt (JInt (- 5)) = Inr (Fin 5)"
    by (simp add: parse_eval float_eval)
  show "parse_number_from_string rt (JStr ''10-20-30'') = Inr (Fin 15)"
    by (simp add: parse_eval float_eval)
qed

section \<open>Properties of the Shape Normalizer\<close>

lemmas normalize_eval =
  normalize_analysis_def damage_fields_def cost_raws_def notes_out_def damage_type_out_def
  location_out_def as_items_def entry_get_def dict_get_def por_def ebind_def py_join_def

text \<open>
  Claim C3. An object without \<open>estimated_cost\<close> and \<open>estimatedCosts\<close> is said to have its
  flattened keys read, so that \<open>{"cost_usd": "50"}\<close> gives \<open>cost_usd = 50.0\<close>. On the code the
  missing estimate defaults to the empty dict, which is a dict, so the branch that reads
  the flattened keys is not taken and the cost is \<open>0.0\<close>.
\<close>

theorem flat_cost_keys_not_read:
  "normalize_analysis rt (JDict [(''cost_usd'', JStr ''50'')]) =
     Inr \<lparr>damage_type = JStr ''Unknown'', location = JStr [], cost_inr = Fin 0,
          cost_usd = Fin 0, cost_yen = Fin 0, notes = JStr []\<rparr>"
  by (simp add: normalize_eval parse_number_from_string_def)

text \<open>
  Claim C5. The normalizer is said to return a record with six non-null fields for every
  input. On the code a damages entry whose \<open>part\<close> is not a string (here a list of two
  parts) reaches the join of the locations unconverted, and the call raises \<open>TypeError\<close>.
\<close>

theorem normalize_raises_on_list_part:
  "normalize_analysis rt
     (JDict [(''damages'', JList [JDict [(''part'', JList [JStr ''hood'', JStr ''bumper'']),
                                        (''damage_type'', JStr ''dent'')]])]) =
     Inl (TypeError ''sequence item 0: expected str instance, list found'')"
  by (simp add: normalize_eval digits_of_nat.simps digit_char_def)

section \<open>Integers beyond the range of the doubles\<close>

lemma bit_length_nonneg: "0 \<le> bit_length n"
  by (induction n rule: bit_length.induct) (subst bit_length.simps, simp)

lemma bit_length_gt: "2 ^ k \<le> n \<Longrightarrow> int k < bit_length n"
proof (induction k arbitrary: n)
  case 0
  then have "0 < n" by simp
  then have "bit_length n = 1 + bit_length (n div 2)"
    by (subst bit_length.simps) simp
  with bit_length_nonneg [of "n div 2"] show ?case by simp
next
  case (Suc k)
  then have pos: "0 < n"
    by (smt (verit) zero_less_power)
  from Suc.prems have "2 ^ k \<le> n div 2" by simp
  then have "int k < bit_length (n div 2)" by (rule Suc.IH)
  moreover from pos have "bit_length n = 1 + bit_length (n div 2)"
    by (subst bit_length.simps) simp
  ultimately show ?case by simp
qed

lemma bit_length_pow_le: "0 < n \<Longrightarrow> 2 ^ nat (bit_length n - 1) \<le> n"
proof (induction n rule: bit_length.induct)
  case (1 n)
  from "1.prems" have eq: "bit_length n = 1 + bit_length (n div 2)"
    by (subst bit_length.simps) simp
  show ?case
  proof (cases "n div 2 = 0")
    case True
    then have "bit_length (n div 2) = 0" by (subst bit_length.simps) simp
    with eq "1.prems" show ?thesis by simp
  next
    case False
    with "1.prems" have pos: "0 < n div 2" by simp
    with "1.IH" "1.prems" have ih: "2 ^ nat (bit_length (n div 2) - 1) \<le> n div 2" by simp
    from pos have "int 0 < bit_length (n div 2)"
      by (intro bit_length_gt) simp
    then have "nat (bit_length (n div 2)) = Suc (nat (bit_length (n div 2) - 1))" by simp
    then have "(2::int) ^ nat (bit_length (n div 2)) = 2 * 2 ^ nat (bit_length (n div 2) - 1)"
      by simp
    also have "\<dots> \<le> 2 * (n div 2)" using ih by simp
    also have "\<dots> \<le> n" by simp
    finally show ?thesis using eq by simp
  qed
qed

lemma pow2_pos: "0 < pow2 e"
  by (simp add: pow2_def)

lemma pow2_mono: "0 \<le> d \<Longrightarrow> d \<le> e \<Longrightarrow> pow2 d \<le> pow2 e"
  by (simp add: pow2_def power_increasing)

lemma pow2_split: "52 \<le> e \<Longrightarrow> 2 ^ 52 * pow2 (e - 52) = pow2 e"
proof -
  assume "52 \<le> e"
  then have "nat e = 52 + nat (e - 52)" by simp
  then have "(2::rat) ^ nat e = 2 ^ 52 * 2 ^ nat (e - 52)"
    by (simp only: power_add)
  with \<open>52 \<le> e\<close> show ?thesis by (simp add: pow2_def)
qed

lemma round_half_even_ge_floor: "\<lfloor>q\<rfloor> \<le> round_half_even q"
  by (simp add: round_half_even_def Let_def)

lemma ilog2_ge_1024: assumes "pow2 1024 \<le> a" shows "1024 \<le> ilog2 a"
proof -
  have p: "pow2 1024 = of_int (2 ^ 1024)" by (simp add: pow2_def)
  have "(1::rat) \<le> pow2 1024" unfolding pow2_def by simp
  with assms have one: "1 \<le> a" by simp
  from assms p have "(2::int) ^ 1024 \<le> \<lfloor>a\<rfloor>" by (simp add: le_floor_iff)
  then have "int 1024 < bit_length \<lfloor>a\<rfloor>" by (rule bit_length_gt)
  with one show ?thesis by (simp add: ilog2_def)
qed

lemma pow2_ilog2_le: assumes "1 \<le> a" shows "pow2 (ilog2 a) \<le> a"
proof -
  from assms have fl: "0 < \<lfloor>a\<rfloor>" by simp
  then have "int 0 < bit_length \<lfloor>a\<rfloor>" by (intro bit_length_gt) simp
  then have nn: "0 \<le> bit_length \<lfloor>a\<rfloor> - 1" by simp
  have "pow2 (ilog2 a) = of_int (2 ^ nat (bit_length \<lfloor>a\<rfloor> - 1))"
    using assms nn by (simp add: ilog2_def pow2_def)
  also have "\<dots> \<le> of_int \<lfloor>a\<rfloor>"
    using bit_length_pow_le [OF fl] by (simp only: of_int_le_iff)
  also have "\<dots> \<le> a" by simp
  finally show ?thesis .
qed

lemma round_mag_overflow: assumes "pow2 1024 \<le> a" shows "dbl_overflow (round_mag a)"
proof -
  define e where "e = ilog2 a"
  define u where "u = pow2 (e - 52)"
  have e: "1024 \<le> e" unfolding e_def using assms by (rule ilog2_ge_1024)
  have "(1::rat) \<le> pow2 1024" unfolding pow2_def by simp
  with assms have one: "1 \<le> a" by simp
  have upos: "0 < u" unfolding u_def by (rule pow2_pos)
  have "2 ^ 52 * u = pow2 e" unfolding u_def using e by (intro pow2_split) simp
  also have "\<dots> \<le> a" unfolding e_def using one by (rule pow2_ilog2_le)
  finally have "2 ^ 52 \<le> a / u" using upos by (simp add: pos_le_divide_eq)
  then have "(2::int) ^ 52 \<le> \<lfloor>a / u\<rfloor>" by (simp add: le_floor_iff)
  also have "\<dots> \<le> round_half_even (a / u)" by (rule round_half_even_ge_floor)
  finally have "(of_int (2 ^ 52) :: rat) \<le> of_int (round_half_even (a / u))"
    by (simp only: of_int_le_iff)
  then have "2 ^ 52 * u \<le> of_int (round_half_even (a / u)) * u"
    using upos by simp
  moreover have "pow2 1024 \<le> 2 ^ 52 * u"
    using \<open>2 ^ 52 * u = pow2 e\<close> pow2_mono [of 1024 e] e by simp
  moreover have "round_mag a = of_int (round_half_even (a / u)) * u"
    using e by (simp add: round_mag_def e_def u_def Let_def max_def)
  ultimately show ?thesis by (simp add: dbl_overflow_def)
qed

lemma float_of_int_overflow:
  assumes "2 ^ 1024 \<le> \<bar>n\<bar>"
  shows "float_of_int n = Inl (OverflowError ''int too large to convert to float'')"
proof -
  have "pow2 1024 = of_int (2 ^ 1024)" by (simp add: pow2_def)
  also have "\<dots> \<le> of_int \<bar>n\<bar>" using assms by (simp only: of_int_le_iff)
  finally have "pow2 1024 \<le> \<bar>of_int n :: rat\<bar>" by simp
  then have "dbl_overflow (round_mag \<bar>of_int n\<bar>)" by (rule round_mag_overflow)
  moreover from assms have "n \<noteq> 0" by auto
  ultimately show ?thesis by (simp add: float_of_int_def)
qed

lemma huge_int_beyond_doubles: "(2::int) ^ 1024 \<le> \<bar>10 ^ 400\<bar>"
proof -
  have "(2::int) ^ 1024 \<le> 2 ^ 1200" by (rule power_increasing) simp_all
  also have "\<dots> = (2 ^ 3) ^ 400" by (simp only: power_mult [symmetric]) simp
  also have "\<dots> \<le> 10 ^ 400" by (rule power_mono) simp_all
  finally show ?thesis by simp
qed

text \<open>
  Claim C7. The Numeric Extractor is said never to fail and to resolve every conversion
  failure to \<open>0.0\<close>. On the code the conversion \<open>float(s)\<close> of a numeric input stands before
  the \<open>try\<close>: for the integer \<open>10 ** 400\<close> it raises \<open>OverflowError\<close>, and the call raises.
\<close>

theorem extract_raises_on_huge_int:
  "parse_number_from_string rt (JInt (10 ^ 400)) =
     Inl (OverflowError ''int too large to convert to float'')"
proof -
  have "float_of_int (10 ^ 400) = Inl (OverflowError ''int too large to convert to float'')"
    using huge_int_beyond_doubles by (rule float_of_int_overflow)
  then show ?thesis
    by (simp only: parse_number_from_string_def json.case map_sum.simps id_apply)
qed

text \<open>
  Claim C6. An input whose damages list has one entry carrying a part and a damage type is
  said to give the bare string \<open>"<type> (<part>)"\<close> as \<open>damage_type\<close>, and two entries the
  list of both labels. On the code the label is built, but the record is returned only if
  the later steps of the same call succeed: with the entry of the claim and a cost that is
  the integer \<open>10 ** 400\<close>, the conversion of the cost raises and no record is returned.
\<close>

theorem claimed_entry_with_huge_cost_raises:
  "normalize_analysis rt
     (JDict [(''damages'', JList [JDict [(''part'', JStr ''bumper''), (''damage_type'', JStr ''dent'')]]),
             (''estimated_cost'', JDict [(''usd'', JInt (10 ^ 400))])]) =
     Inl (OverflowError ''int too large to convert to float'')"
proof -
  let ?raw = "[(''damages'', JList [JDict [(''part'', JStr ''bumper''), (''damage_type'', JStr ''dent'')]]),
               (''estimated_cost'', JDict [(''usd'', JInt (10 ^ 400))])]"
  have d: "damage_fields rt ?raw = ([JStr ''dent (bumper)''], [JStr ''bumper''])"
    by (simp add: damage_fields_def dict_get_def entry_get_def por_def)
  have l: "location_out ?raw [JStr ''bumper''] = Inr (JStr ''bumper'')"
    by (simp add: location_out_def py_join_def)
  have c: "cost_raws ?raw = (JInt (10 ^ 400), JNull, JNull)"
    by (simp add: cost_raws_def dict_get_def por_def)
  have "float_of_int (10 ^ 400) = Inl (OverflowError ''int too large to convert to float'')"
    using huge_int_beyond_doubles by (rule float_of_int_overflow)
  then have p: "parse_number_from_string rt (JInt (10 ^ 400)) =
      Inl (OverflowError ''int too large to convert to float'')"
    by (simp only: parse_number_from_string_def json.case map_sum.simps id_apply)
  show ?thesis
    by (simp only: normalize_analysis_def json.case d l c prod.case ebind_def sum.case p)
qed

section \<open>Values that are false in a condition\<close>

lemma dict_get_remove_key:
  "dict_get (remove_key k kvs) k' = (if k' = k then JNull else dict_get kvs k')"
  by (induction kvs) (auto simp: dict_get_def remove_key_def)

lemma same_or_falsy_refl: "same_or_falsy a a"
  by (simp add: same_or_falsy_def)

lemma get_removed_same:
  "\<not> truthy (dict_get kvs k) \<Longrightarrow> same_or_falsy (dict_get (remove_key k kvs) k') (dict_get kvs k')"
  by (simp add: dict_get_remove_key same_or_falsy_def)

lemma por_same:
  "same_or_falsy a a' \<Longrightarrow> same_or_falsy b b' \<Longrightarrow> same_or_falsy (por a b) (por a' b')"
  by (auto simp: same_or_falsy_def por_def)

lemma por_default:
  "same_or_falsy a a' \<Longrightarrow> por a c = por a' c"
  by (auto simp: same_or_falsy_def por_def)

lemma as_items_same: "same_or_falsy a a' \<Longrightarrow> as_items rt a = as_items rt a'"
  by (auto simp: same_or_falsy_def as_items_def)

lemma parse_falsy: "\<not> truthy v \<Longrightarrow> parse_number_from_string rt v = Inr (Fin 0)"
proof (cases v)
  case (JFloat f)
  assume "\<not> truthy v"
  with JFloat show ?thesis by (cases f) (simp_all add: parse_number_from_string_def)
next
  case (JList xs)
  assume "\<not> truthy v"
  with JList show ?thesis by (simp add: parse_eval)
next
  case (JDict kvs)
  assume "\<not> truthy v"
  with JDict show ?thesis by (simp add: parse_eval)
qed (simp_all add: parse_eval float_of_int_def)

lemma parse_same:
  "same_or_falsy a a' \<Longrightarrow> parse_number_from_string rt a = parse_number_from_string rt a'"
  by (auto simp: same_or_falsy_def parse_falsy)


lemma damage_fields_remove:
  assumes "\<not> truthy (dict_get raw k)"
  shows "damage_fields rt (remove_key k raw) = damage_fields rt raw"
proof -
  let ?g = "dict_get (remove_key k raw)"
  have d: "por (por (?g ''damages'') (?g ''damage'')) (JList []) =
           por (por (dict_get raw ''damages'') (dict_get raw ''damage'')) (JList [])"
    by (intro por_default por_same get_removed_same assms)
  have t: "as_items rt (por (?g ''damage_type'') (?g ''damage'')) =
           as_items rt (por (dict_get raw ''damage_type'') (dict_get raw ''damage''))"
    by (intro as_items_same por_same get_removed_same assms)
  have l: "as_items rt (por (?g ''location'') (?g ''part'')) =
           as_items rt (por (dict_get raw ''location'') (dict_get raw ''part''))"
    by (intro as_items_same por_same get_removed_same assms)
  show ?thesis by (simp only: damage_fields_def d t l)
qed

lemma damage_type_out_remove:
  assumes "\<not> truthy (dict_get raw k)"
  shows "damage_type_out (remove_key k raw) dts = damage_type_out raw dts"
proof -
  have "por (dict_get (remove_key k raw) ''damage_type'') (JStr ''Unknown'') =
        por (dict_get raw ''damage_type'') (JStr ''Unknown'')"
    by (intro por_default get_removed_same assms)
  then show ?thesis by (simp only: damage_type_out_def)
qed

lemma location_out_remove:
  assumes "\<not> truthy (dict_get raw k)"
  shows "location_out (remove_key k raw) locs = location_out raw locs"
proof -
  have "por (dict_get (remove_key k raw) ''location'') (JStr []) =
        por (dict_get raw ''location'') (JStr [])"
    by (intro por_default get_removed_same assms)
  then show ?thesis by (simp only: location_out_def)
qed

lemma notes_out_remove:
  assumes "\<not> truthy (dict_get raw k)"
  shows "notes_out (remove_key k raw) = notes_out raw"
  unfolding notes_out_def
  by (intro por_default por_same get_removed_same assms)

lemma cost_raws_remove:
  assumes "\<not> truthy (dict_get raw k)"
    and "cost_raws (remove_key k raw) = (u', i', j')" and "cost_raws raw = (u, i, j)"
  shows "same_or_falsy u' u \<and> same_or_falsy i' i \<and> same_or_falsy j' j"
proof -
  let ?g = "dict_get (remove_key k raw)"
  have e: "por (por (?g ''estimated_cost'') (?g ''estimatedCosts'')) (JDict []) =
           por (por (dict_get raw ''estimated_cost'') (dict_get raw ''estimatedCosts'')) (JDict [])"
    by (intro por_default por_same get_removed_same assms)
  have s: "\<And>a b c. same_or_falsy (por (por (?g a) (?g b)) (?g c))
                               (por (por (dict_get raw a) (dict_get raw b)) (dict_get raw c))"
    by (intro por_same get_removed_same assms)
  from assms(2,3) show ?thesis
    unfolding cost_raws_def Let_def e
    by (auto split: json.splits simp: same_or_falsy_refl s)
qed

lemma normalize_remove_key:
  assumes "\<not> truthy (dict_get raw k)"
  shows "normalize_analysis rt (JDict (remove_key k raw)) = normalize_analysis rt (JDict raw)"
proof -
  obtain u' i' j' where c': "cost_raws (remove_key k raw) = (u', i', j')"
    by (cases "cost_raws (remove_key k raw)") auto
  obtain u i j where c: "cost_raws raw = (u, i, j)"
    by (cases "cost_raws raw") auto
  from cost_raws_remove [OF assms c' c]
  have p: "parse_number_from_string rt u' = parse_number_from_string rt u"
          "parse_number_from_string rt i' = parse_number_from_string rt i"
          "parse_number_from_string rt j' = parse_number_from_string rt j"
    by (simp_all add: parse_same)
  show ?thesis
    by (simp add: normalize_analysis_def damage_fields_remove [OF assms]
        damage_type_out_remove [OF assms] location_out_remove [OF assms]
        notes_out_remove [OF assms] c c' p)
qed


lemma dict_get_Cons:
  "dict_get ((k0, v) # rest) k' = (if k' = k0 then v else dict_get rest k')"
  by (simp add: dict_get_def)

lemma est_lookup_removed:
  assumes "\<not> truthy (dict_get e k)" and "remove_key k e \<noteq> []"
  shows "normalize_analysis rt (JDict ((''estimated_cost'', JDict (remove_key k e)) # rest)) =
         normalize_analysis rt (JDict ((''estimated_cost'', JDict e) # rest))"
proof -
  let ?r1 = "(''estimated_cost'', JDict (remove_key k e)) # rest"
  let ?r2 = "(''estimated_cost'', JDict e) # rest"
  let ?g = "dict_get (remove_key k e)"
  from assms(2) have ne: "e \<noteq> []" by (auto simp: remove_key_def)
  have c1: "cost_raws ?r1 =
       (por (por (?g ''usd'') (?g ''USD'')) (?g ''dollars''),
        por (?g ''inr'') (?g ''INR''),
        por (por (?g ''jpy'') (?g ''JPY'')) (?g ''yen''))"
    using assms(2) by (simp add: cost_raws_def dict_get_Cons por_def)
  have c2: "cost_raws ?r2 =
       (por (por (dict_get e ''usd'') (dict_get e ''USD'')) (dict_get e ''dollars''),
        por (dict_get e ''inr'') (dict_get e ''INR''),
        por (por (dict_get e ''jpy'') (dict_get e ''JPY'')) (dict_get e ''yen''))"
    using ne by (simp add: cost_raws_def dict_get_Cons por_def)
  have p: "\<And>a b c. parse_number_from_string rt (por (por (?g a) (?g b)) (?g c)) =
                    parse_number_from_string rt (por (por (dict_get e a) (dict_get e b)) (dict_get e c))"
          "\<And>a b. parse_number_from_string rt (por (?g a) (?g b)) =
                    parse_number_from_string rt (por (dict_get e a) (dict_get e b))"
    by (intro parse_same por_same get_removed_same assms(1))+
  have d: "damage_fields rt ?r1 = damage_fields rt ?r2"
    by (simp add: damage_fields_def dict_get_Cons cong: json.case_cong list.case_cong)
  have o: "\<And>x. damage_type_out ?r1 x = damage_type_out ?r2 x"
          "\<And>x. location_out ?r1 x = location_out ?r2 x" "notes_out ?r1 = notes_out ?r2"
    by (simp_all add: damage_type_out_def location_out_def notes_out_def dict_get_Cons)
  show ?thesis
    by (simp add: normalize_analysis_def c1 c2 p d o)
qed

lemma scan_step_removed:
  assumes "\<not> truthy (dict_get ekvs k)"
  shows "scan_damages rt (JDict (remove_key k ekvs) # ds) acc = scan_damages rt (JDict ekvs # ds) acc"
  using assms by (cases acc) (auto simp: entry_get_def dict_get_remove_key Let_def)

lemma scan_entry_removed:
  assumes "\<not> truthy (dict_get ekvs k)"
  shows "scan_damages rt (pre @ JDict (remove_key k ekvs) # post) acc =
         scan_damages rt (pre @ JDict ekvs # post) acc"
proof (induction pre arbitrary: acc)
  case Nil
  show ?case using assms by (simp add: scan_step_removed)
next
  case (Cons d pre)
  show ?case by (cases acc) (simp add: Let_def Cons.IH)
qed

lemma damage_fields_nonempty:
  "dict_get raw ''damages'' = JList ds \<Longrightarrow> ds \<noteq> [] \<Longrightarrow>
   damage_fields rt raw = scan_damages rt ds ([], [])"
  by (cases ds) (simp_all add: damage_fields_def por_def)

lemma entry_lookup_removed:
  assumes "\<not> truthy (dict_get ekvs k)"
  shows "normalize_analysis rt (JDict ((''damages'', JList (pre @ JDict (remove_key k ekvs) # post)) # rest)) =
         normalize_analysis rt (JDict ((''damages'', JList (pre @ JDict ekvs # post)) # rest))"
proof -
  let ?r1 = "(''damages'', JList (pre @ JDict (remove_key k ekvs) # post)) # rest"
  let ?r2 = "(''damages'', JList (pre @ JDict ekvs # post)) # rest"
  have "damage_fields rt ?r1 = scan_damages rt (pre @ JDict (remove_key k ekvs) # post) ([], [])"
    by (rule damage_fields_nonempty) (simp_all add: dict_get_Cons)
  moreover have "damage_fields rt ?r2 = scan_damages rt (pre @ JDict ekvs # post) ([], [])"
    by (rule damage_fields_nonempty) (simp_all add: dict_get_Cons)
  ultimately have d: "damage_fields rt ?r1 = damage_fields rt ?r2"
    by (simp add: scan_entry_removed [OF assms])
  have o: "\<And>x. damage_type_out ?r1 x = damage_type_out ?r2 x"
          "\<And>x. location_out ?r1 x = location_out ?r2 x" "notes_out ?r1 = notes_out ?r2"
          "cost_raws ?r1 = cost_raws ?r2"
    by (simp_all add: damage_type_out_def location_out_def notes_out_def cost_raws_def
        dict_get_Cons cong: json.case_cong)
  show ?thesis
    by (simp add: normalize_analysis_def d o)
qed


text \<open>
  Claim C10. A key whose value is false in a condition (\<open>None\<close>, \<open>False\<close>, zero, an empty
  string, list or dict) is treated as an absent key: removing it from the object, from a
  nested cost estimate that keeps another key, or from a damages entry leaves the result
  of the normalizer unchanged, so a later fallback key wins. The two examples of the claim
  are evaluated as well.
\<close>

theorem falsy_value_as_absent:
  "(\<not> truthy (dict_get raw k) \<longrightarrow>
      normalize_analysis rt (JDict (remove_key k raw)) = normalize_analysis rt (JDict raw)) \<and>
   (\<not> truthy (dict_get est ke) \<and> remove_key ke est \<noteq> [] \<longrightarrow>
      normalize_analysis rt (JDict ((''estimated_cost'', JDict (remove_key ke est)) # rest)) =
      normalize_analysis rt (JDict ((''estimated_cost'', JDict est) # rest))) \<and>
   (\<not> truthy (dict_get d kd) \<longrightarrow>
      normalize_analysis rt (JDict ((''damages'', JList (pre @ JDict (remove_key kd d) # post)) # rest')) =
      normalize_analysis rt (JDict ((''damages'', JList (pre @ JDict d # post)) # rest'))) \<and>
   normalize_analysis rt
     (JDict [(''estimated_cost'', JDict [(''usd'', JInt 0), (''dollars'', JStr ''50'')])]) =
     Inr \<lparr>damage_type = JStr ''Unknown'', location = JStr [], cost_inr = Fin 0,
          cost_usd = Fin 50, cost_yen = Fin 0, notes = JStr []\<rparr> \<and>
   normalize_analysis rt (JDict [(''notes'', JStr []), (''note'', JStr ''x'')]) =
     Inr \<lparr>damage_type = JStr ''Unknown'', location = JStr [], cost_inr = Fin 0,
          cost_usd = Fin 0, cost_yen = Fin 0, notes = JStr ''x''\<rparr>"
proof (intro conjI impI)
  assume "\<not> truthy (dict_get raw k)"
  then show "normalize_analysis rt (JDict (remove_key k raw)) = normalize_analysis rt (JDict raw)"
    by (rule normalize_remove_key)
next
  assume "\<not> truthy (dict_get est ke) \<and> remove_key ke est \<noteq> []"
  then show "normalize_analysis rt (JDict ((''estimated_cost'', JDict (remove_key ke est)) # rest)) =
      normalize_analysis rt (JDict ((''estimated_cost'', JDict est) # rest))"
    by (intro est_lookup_removed) simp_all
next
  assume "\<not> truthy (dict_get d kd)"
  then show "normalize_analysis rt (JDict ((''damages'', JList (pre @ JDict (remove_key kd d) # post)) # rest')) =
      normalize_analysis rt (JDict ((''damages'', JList (pre @ JDict d # post)) # rest'))"
    by (rule entry_lookup_removed)
next
  show "normalize_analysis rt
     (JDict [(''estimated_cost'', JDict [(''usd'', JInt 0), (''dollars'', JStr ''50'')])]) =
     Inr \<lparr>damage_type = JStr ''Unknown'', location = JStr [], cost_inr = Fin 0,
          cost_usd = Fin 50, cost_yen = Fin 0, notes = JStr []\<rparr>"
    by (simp add: normalize_eval parse_eval float_eval)
next
  show "normalize_analysis rt (JDict [(''notes'', JStr []), (''note'', JStr ''x'')]) =
     Inr \<lparr>damage_type = JStr ''Unknown'', location = JStr [], cost_inr = Fin 0,
          cost_usd = Fin 0, cost_yen = Fin 0, notes = JStr ''x''\<rparr>"
    by (simp add: normalize_eval parse_number_from_string_def)
qed

theorem falsy_value_as_absent_witness:
  "normalize_analysis sample_runtime (JDict [(''note'', JStr ''x'')]) =
     normalize_analysis sample_runtime (JDict [(''notes'', JStr []), (''note'', JStr ''x'')]) \<and>
   normalize_analysis sample_runtime (JDict [(''estimated_cost'', JDict [(''dollars'', JStr ''50'')])]) =
     normalize_analysis sample_runtime
       (JDict [(''estimated_cost'', JDict [(''usd'', JInt 0), (''dollars'', JStr ''50'')])]) \<and>
   normalize_analysis sample_runtime (JDict [(''damages'', JList [JDict [(''damage_type'', JStr ''dent'')]])]) =
     normalize_analysis sample_runtime
       (JDict [(''damages'', JList [JDict [(''part'', JStr []), (''damage_type'', JStr ''dent'')]])])"
  using falsy_value_as_absent
    [of "[(''notes'', JStr []), (''note'', JStr ''x'')]" "''notes''" sample_runtime
        "[(''usd'', JInt 0), (''dollars'', JStr ''50'')]" "''usd''" "[]"
        "[(''part'', JStr []), (''damage_type'', JStr ''dent'')]" "''part''" "[]" "[]" "[]"]
  by (simp add: dict_get_def remove_key_def)

section \<open>Properties of the decode step\<close>

lemma brace_span_found:
  assumes "CHR ''{'' \<notin> set pre" and "CHR ''}'' \<notin> set post"
  shows "brace_span (pre @ CHR ''{'' # mid @ CHR ''}'' # post) = Some (CHR ''{'' # mid @ [CHR ''}''])"
proof -
  have d: "dropWhile (\<lambda>c. c \<noteq> CHR ''{'') (pre @ CHR ''{'' # mid @ CHR ''}'' # post) =
           CHR ''{'' # mid @ CHR ''}'' # post"
    using assms(1) by (subst dropWhile_append2) auto
  have r: "dropWhile (\<lambda>c. c \<noteq> CHR ''}'') (rev post @ CHR ''}'' # rev mid @ [CHR ''{'']) =
           CHR ''}'' # rev mid @ [CHR ''{'']"
    using assms(2) by (subst dropWhile_append2) auto
  show ?thesis by (simp add: brace_span_def d r)
qed

lemma brace_span_shape:
  assumes "brace_span text = Some m"
  shows "\<exists>pre mid post. text = pre @ CHR ''{'' # mid @ CHR ''}'' # post \<and>
           CHR ''{'' \<notin> set pre \<and> CHR ''}'' \<notin> set post \<and> m = CHR ''{'' # mid @ [CHR ''}'']"
proof -
  define t where "t = dropWhile (\<lambda>c. c \<noteq> CHR ''{'') text"
  define pre where "pre = takeWhile (\<lambda>c. c \<noteq> CHR ''{'') text"
  define r where "r = dropWhile (\<lambda>c. c \<noteq> CHR ''}'') (rev t)"
  define q where "q = takeWhile (\<lambda>c. c \<noteq> CHR ''}'') (rev t)"
  from assms have "t \<noteq> [] \<and> CHR ''}'' \<in> set t \<and> m = rev r"
    unfolding brace_span_def t_def r_def Let_def by (simp split: if_splits)
  then have tne: "t \<noteq> []" and cl: "CHR ''}'' \<in> set t" and m: "m = rev r"
    by simp_all
  have tx: "text = pre @ t" by (simp add: pre_def t_def)
  have pre: "CHR ''{'' \<notin> set pre" unfolding pre_def by (auto dest: set_takeWhileD)
  have "\<not> hd t \<noteq> CHR ''{''" using tne unfolding t_def by (rule hd_dropWhile)
  with tne obtain t' where t: "t = CHR ''{'' # t'" by (cases t) auto
  have revt: "rev t = q @ r" by (simp add: q_def r_def)
  have q: "CHR ''}'' \<notin> set q" unfolding q_def by (auto dest: set_takeWhileD)
  from cl have "CHR ''}'' \<in> set (rev t)" by simp
  with q revt have rne: "r \<noteq> []" by auto
  then have "\<not> hd r \<noteq> CHR ''}''" unfolding r_def by (rule hd_dropWhile)
  with rne obtain r' where r: "r = CHR ''}'' # r'" by (cases r) auto
  have "rev (rev t) = rev (q @ CHR ''}'' # r')" by (simp only: revt r)
  then have t2: "t = rev r' @ CHR ''}'' # rev q" by simp
  with t obtain mid where mid: "rev r' = CHR ''{'' # mid"
    by (cases "rev r'") auto
  have "text = pre @ CHR ''{'' # mid @ CHR ''}'' # rev q" using tx t2 mid by simp
  moreover have "CHR ''}'' \<notin> set (rev q)" using q by simp
  moreover have "m = CHR ''{'' # mid @ [CHR ''}'']" using m r mid by simp
  ultimately show ?thesis using pre by blast
qed


text \<open>
  Claim C4. The decode step returns for every text: the value of \<open>json.loads\<close> when the
  whole text is valid; otherwise the value of the span from the first opening brace to
  the last closing brace when that span is valid; otherwise the object with the single
  field \<open>raw_output\<close> holding the text, which the normalizer turns into the record with
  \<open>damage_type\<close> \<open>"Unknown"\<close> and the text as notes.
\<close>

theorem decode_three_stages:
  "(loads rt text1 = Some v1 \<longrightarrow> decode rt text1 = v1) \<and>
   (loads rt text2 = None \<and> text2 = pre @ CHR ''{'' # mid @ CHR ''}'' # post \<and>
    CHR ''{'' \<notin> set pre \<and> CHR ''}'' \<notin> set post \<and>
    loads rt (CHR ''{'' # mid @ [CHR ''}'']) = Some v2 \<longrightarrow> decode rt text2 = v2) \<and>
   (loads rt text3 = None \<and>
    (\<forall>pre mid post. text3 = pre @ CHR ''{'' # mid @ CHR ''}'' # post \<and>
        CHR ''{'' \<notin> set pre \<and> CHR ''}'' \<notin> set post \<longrightarrow>
        loads rt (CHR ''{'' # mid @ [CHR ''}'']) = None)
    \<longrightarrow> decode rt text3 = JDict [(''raw_output'', JStr text3)]) \<and>
   normalize_analysis rt (JDict [(''raw_output'', JStr text4)]) =
     Inr \<lparr>damage_type = JStr ''Unknown'', location = JStr [], cost_inr = Fin 0,
          cost_usd = Fin 0, cost_yen = Fin 0, notes = JStr text4\<rparr>"
proof (intro conjI impI; (elim conjE)?)
  assume "loads rt text1 = Some v1"
  then show "decode rt text1 = v1" by (simp add: decode_def)
next
  assume l: "loads rt text2 = None"
    and tx: "text2 = pre @ CHR ''{'' # mid @ CHR ''}'' # post"
    and b: "CHR ''{'' \<notin> set pre" "CHR ''}'' \<notin> set post"
    and lm: "loads rt (CHR ''{'' # mid @ [CHR ''}'']) = Some v2"
  have bs: "brace_span text2 = Some (CHR ''{'' # mid @ [CHR ''}''])"
    unfolding tx using b by (rule brace_span_found)
  show "decode rt text2 = v2" by (simp only: decode_def l bs lm option.case)
next
  assume l: "loads rt text3 = None"
    and h: "\<forall>pre mid post. text3 = pre @ CHR ''{'' # mid @ CHR ''}'' # post \<and>
        CHR ''{'' \<notin> set pre \<and> CHR ''}'' \<notin> set post \<longrightarrow>
        loads rt (CHR ''{'' # mid @ [CHR ''}'']) = None"
  show "decode rt text3 = JDict [(''raw_output'', JStr text3)]"
  proof (cases "brace_span text3")
    case None
    show ?thesis by (simp only: decode_def l None option.case raw_output_def)
  next
    case (Some m)
    from brace_span_shape [OF Some] obtain pre mid post
      where s: "text3 = pre @ CHR ''{'' # mid @ CHR ''}'' # post \<and>
           CHR ''{'' \<notin> set pre \<and> CHR ''}'' \<notin> set post"
        and m: "m = CHR ''{'' # mid @ [CHR ''}'']"
      by (elim exE conjE) (rule that, intro conjI)
    from h [rule_format, OF s] m have lm: "loads rt m = None" by (simp only:)
    show ?thesis by (simp only: decode_def l Some lm option.case raw_output_def)
  qed
next
  show "normalize_analysis rt (JDict [(''raw_output'', JStr text4)]) =
     Inr \<lparr>damage_type = JStr ''Unknown'', location = JStr [], cost_inr = Fin 0,
          cost_usd = Fin 0, cost_yen = Fin 0, notes = JStr text4\<rparr>"
    by (simp add: raw_output_def normalize_eval parse_number_from_string_def)
qed

theorem decode_three_stages_witness:
  "decode sample_runtime ''{}'' = JDict [] \<and>
   decode sample_runtime ''Sure! {} Thanks.'' = JDict [] \<and>
   decode sample_runtime ''no json here'' = JDict [(''raw_output'', JStr ''no json here'')] \<and>
   normalize_analysis sample_runtime (JDict [(''raw_output'', JStr ''no json here'')]) =
     Inr \<lparr>damage_type = JStr ''Unknown'', location = JStr [], cost_inr = Fin 0,
          cost_usd = Fin 0, cost_yen = Fin 0, notes = JStr ''no json here''\<rparr>"
proof -
  note t = decode_three_stages
      [of sample_runtime "''{}''" "JDict []" "''Sure! {} Thanks.''" "''Sure! ''" "[]"
          "'' Thanks.''" "JDict []" "''no json here''" "''no json here''"]
  have l1: "loads sample_runtime ''{}'' = Some (JDict [])"
    by (simp add: sample_runtime_def)
  have l2: "loads sample_runtime ''Sure! {} Thanks.'' = None \<and>
      ''Sure! {} Thanks.'' = ''Sure! '' @ CHR ''{'' # [] @ CHR ''}'' # '' Thanks.'' \<and>
      CHR ''{'' \<notin> set ''Sure! '' \<and> CHR ''}'' \<notin> set '' Thanks.'' \<and>
      loads sample_runtime (CHR ''{'' # [] @ [CHR ''}'']) = Some (JDict [])"
    by (simp add: sample_runtime_def)
  have l3: "loads sample_runtime ''no json here'' = None"
    by (simp add: sample_runtime_def)
  have n: "\<forall>pre mid post. ''no json here'' = pre @ CHR ''{'' # mid @ CHR ''}'' # post \<and>
        CHR ''{'' \<notin> set pre \<and> CHR ''}'' \<notin> set post \<longrightarrow>
        loads sample_runtime (CHR ''{'' # mid @ [CHR ''}'']) = None"
  proof (intro allI impI, elim conjE)
    fix pre mid post
    assume a: "''no json here'' = pre @ CHR ''{'' # mid @ CHR ''}'' # post"
    have "CHR ''{'' \<in> set (pre @ CHR ''{'' # mid @ CHR ''}'' # post)" by simp
    then have "CHR ''{'' \<in> set ''no json here''" by (simp only: a [symmetric])
    then show "loads sample_runtime (CHR ''{'' # mid @ [CHR ''}'']) = None" by simp
  qed
  have c1: "decode sample_runtime ''{}'' = JDict []"
    by (rule t [THEN conjunct1, THEN mp, OF l1])
  have c2: "decode sample_runtime ''Sure! {} Thanks.'' = JDict []"
    by (rule t [THEN conjunct2, THEN conjunct1, THEN mp, OF l2])
  have c3: "decode sample_runtime ''no json here'' = JDict [(''raw_output'', JStr ''no json here'')]"
    by (rule t [THEN conjunct2, THEN conjunct2, THEN conjunct1, THEN mp, OF conjI [OF l3 n]])
  have c4: "normalize_analysis sample_runtime (JDict [(''raw_output'', JStr ''no json here'')]) =
     Inr \<lparr>damage_type = JStr ''Unknown'', location = JStr [], cost_inr = Fin 0,
          cost_usd = Fin 0, cost_yen = Fin 0, notes = JStr ''no json here''\<rparr>"
    by (rule t [THEN conjunct2, THEN conjunct2, THEN conjunct2])
  from c1 c2 c3 c4 show ?thesis by (intro conjI)
qed

section \<open>Properties of the storage and of the endpoints\<close>

lemma query_of_increasing_times:
  assumes "order_by_created_at_desc stored result"
    and "sorted_wrt (\<lambda>a b. created_at a < created_at b) stored"
  shows "result = rev stored"
proof -
  have "mset result = mset stored \<Longrightarrow> sorted_wrt (\<lambda>a b. created_at b \<le> created_at a) result \<Longrightarrow>
        sorted_wrt (\<lambda>a b. created_at a < created_at b) stored \<Longrightarrow> result = rev stored"
  proof (induction stored arbitrary: result rule: rev_induct)
    case Nil
    then show ?case by simp
  next
    case (snoc x xs)
    from snoc.prems(1) have "result \<noteq> []" by auto
    then obtain h rest where r: "result = h # rest" by (cases result) auto
    from snoc.prems(3) have inc: "sorted_wrt (\<lambda>a b. created_at a < created_at b) xs"
      and top: "\<forall>y \<in> set xs. created_at y < created_at x"
      by (simp_all add: sorted_wrt_append)
    from snoc.prems(2) r have desc: "sorted_wrt (\<lambda>a b. created_at b \<le> created_at a) rest"
      and hd: "\<forall>y \<in> set rest. created_at y \<le> created_at h"
      by simp_all
    have sets: "set result = set (xs @ [x])" using snoc.prems(1) by (rule mset_eq_setD)
    then have "x \<in> set result" by simp
    with r hd have le: "created_at x \<le> created_at h" by auto
    from sets r have "h = x \<or> h \<in> set xs" by auto
    with top le have hx: "h = x" by fastforce
    with snoc.prems(1) r have "mset rest = mset xs" by simp
    from snoc.IH [OF this desc inc] hx r show ?case by simp
  qed
  with assms show ?thesis by (simp add: order_by_created_at_desc_def)
qed

lemma later_row_comes_first:
  assumes "order_by_created_at_desc stored result"
    and "r1 \<in> set stored" "r2 \<in> set stored" "created_at r1 < created_at r2"
  shows "\<exists>pre mid post. result = pre @ r2 # mid @ r1 # post"
proof -
  from assms(1) have m: "mset result = mset stored"
    and s: "sorted_wrt (\<lambda>a b. created_at b \<le> created_at a) result"
    by (simp_all add: order_by_created_at_desc_def)
  from m have sets: "set result = set stored" by (rule mset_eq_setD)
  with assms(3) have "r2 \<in> set result" by simp
  then obtain pre bs where sp: "result = pre @ r2 # bs" by (auto dest: split_list)
  from s sp have "\<forall>x \<in> set pre. created_at r2 \<le> created_at x"
    by (simp add: sorted_wrt_append)
  with assms(4) have "r1 \<notin> set pre" by auto
  moreover from assms(4) have "r1 \<noteq> r2" by auto
  moreover from sets assms(2) have "r1 \<in> set result" by simp
  ultimately have "r1 \<in> set bs" using sp by auto
  then obtain mid post where "bs = mid @ r1 # post" by (auto dest: split_list)
  with sp show ?thesis by blast
qed

text \<open>
  Claim C8, as amended. The history has one entry for every stored row, each with the
  columns of its row, and is ordered by creation time, the latest first: of two stored rows
  the one with the strictly later creation time comes first, whatever the order in which
  they were persisted. When the creation times strictly increase in the order of
  persistence, the history is the stored rows in reverse order of persistence.
\<close>

theorem history_ordered_by_creation_time:
  assumes "order_by_created_at_desc stored result"
  shows "let entry = (\<lambda>r. \<lparr>h_id = row_id r, h_image_path = image_path r,
                           h_damage_type = row_damage_type r, h_location = row_location r,
                           h_cost_inr = row_cost_inr r, h_cost_usd = row_cost_usd r,
                           h_cost_yen = row_cost_yen r,
                           h_created_at = isoformat (created_at r)\<rparr>)
         in get_history isoformat result = map entry result \<and>
            mset (get_history isoformat result) = mset (map entry stored) \<and>
            (\<forall>r1 r2. r1 \<in> set stored \<and> r2 \<in> set stored \<and> created_at r1 < created_at r2 \<longrightarrow>
               (\<exists>pre mid post. get_history isoformat result =
                   map entry pre @ entry r2 # map entry mid @ entry r1 # map entry post)) \<and>
            (sorted_wrt (\<lambda>a b. created_at a < created_at b) stored \<longrightarrow>
               get_history isoformat result = map entry (rev stored))"
proof -
  define entry :: "Analysis \<Rightarrow> history_entry" where "entry = (\<lambda>r. \<lparr>h_id = row_id r, h_image_path = image_path r,
                           h_damage_type = row_damage_type r, h_location = row_location r,
                           h_cost_inr = row_cost_inr r, h_cost_usd = row_cost_usd r,
                           h_cost_yen = row_cost_yen r,
                           h_created_at = isoformat (created_at r)\<rparr>)"
  have g: "\<And>xs. get_history isoformat xs = map entry xs"
    by (simp add: get_history_def history_out_def entry_def)
  from assms have m: "mset result = mset stored"
    by (simp add: order_by_created_at_desc_def)
  have c: "mset (get_history isoformat result) = mset (map entry stored)"
    unfolding g using m by (metis mset_map)
  have o: "\<forall>r1 r2. r1 \<in> set stored \<and> r2 \<in> set stored \<and> created_at r1 < created_at r2 \<longrightarrow>
               (\<exists>pre mid post. get_history isoformat result =
                   map entry pre @ entry r2 # map entry mid @ entry r1 # map entry post)"
  proof (intro allI impI, elim conjE)
    fix r1 r2
    assume "r1 \<in> set stored" "r2 \<in> set stored" "created_at r1 < created_at r2"
    with assms obtain pre mid post where "result = pre @ r2 # mid @ r1 # post"
      using later_row_comes_first by blast
    then have "get_history isoformat result =
        map entry pre @ entry r2 # map entry mid @ entry r1 # map entry post"
      by (simp add: g)
    then show "\<exists>pre mid post. get_history isoformat result =
                   map entry pre @ entry r2 # map entry mid @ entry r1 # map entry post"
      by blast
  qed
  have i: "sorted_wrt (\<lambda>a b. created_at a < created_at b) stored \<longrightarrow>
               get_history isoformat result = map entry (rev stored)"
    using query_of_increasing_times [OF assms] g by simp
  from g [of result] c o i show ?thesis
    unfolding Let_def entry_def by (intro conjI)
qed

theorem history_ordered_by_creation_time_witness:
  "order_by_created_at_desc [sample_row 1 10, sample_row 2 20] [sample_row 2 20, sample_row 1 10] \<and>
   get_history int_repr [sample_row 2 20, sample_row 1 10] =
     [\<lparr>h_id = 2, h_image_path = ''/uploads/ab12.png'', h_damage_type = ''Unknown'',
       h_location = [], h_cost_inr = Fin 0, h_cost_usd = Fin 0, h_cost_yen = Fin 0,
       h_created_at = ''20''\<rparr>,
      \<lparr>h_id = 1, h_image_path = ''/uploads/ab12.png'', h_damage_type = ''Unknown'',
       h_location = [], h_cost_inr = Fin 0, h_cost_usd = Fin 0, h_cost_yen = Fin 0,
       h_created_at = ''10''\<rparr>]"
proof -
  have o: "order_by_created_at_desc [sample_row 1 10, sample_row 2 20]
             [sample_row 2 20, sample_row 1 10]"
    by (simp add: order_by_created_at_desc_def sample_row_def)
  have s: "sorted_wrt (\<lambda>a b. created_at a < created_at b) [sample_row 1 10, sample_row 2 20]"
    by (simp add: sample_row_def)
  from history_ordered_by_creation_time [OF o, of int_repr] s
  have "get_history int_repr [sample_row 2 20, sample_row 1 10] =
      map (\<lambda>r. \<lparr>h_id = row_id r, h_image_path = image_path r,
                 h_damage_type = row_damage_type r, h_location = row_location r,
                 h_cost_inr = row_cost_inr r, h_cost_usd = row_cost_usd r,
                 h_cost_yen = row_cost_yen r, h_created_at = int_repr (created_at r)\<rparr>)
        (rev [sample_row 1 10, sample_row 2 20])"
    by (simp add: Let_def)
  then show ?thesis using o
    by (simp add: sample_row_def int_repr_def digits_of_nat.simps digit_char_def)
qed

lemmas analyze_eval =
  analyze_def analyze_body_def analyze_damage_bytes_def decode_def brace_span_def raw_output_def
  damage_str_def float_or_zero_def next_id_def sample_env_def sample_runtime_def empty_store_def
  sample_row_def Let_def

text \<open>
  Claim C8 as stated, that a row persisted later always comes first, fails when the clock
  goes back between two requests: the first request is committed at clock reading \<open>20\<close>,
  the second at \<open>10\<close>; the query can only return the first row first, and so does the
  history.
\<close>

theorem history_follows_clock_counterexample:
  "rows (snd (analyze sample_runtime ((sample_env ''{}'' None)\<lparr>uuid_hex := ''cd34'', now := 10\<rparr>)
           (snd (analyze sample_runtime ((sample_env ''{}'' None)\<lparr>now := 20\<rparr>) empty_store)))) =
     [sample_row 1 20, (sample_row 2 10)\<lparr>image_path := ''/uploads/cd34.png''\<rparr>] \<and>
   order_by_created_at_desc
     [sample_row 1 20, (sample_row 2 10)\<lparr>image_path := ''/uploads/cd34.png''\<rparr>]
     [sample_row 1 20, (sample_row 2 10)\<lparr>image_path := ''/uploads/cd34.png''\<rparr>] \<and>
   \<not> order_by_created_at_desc
     [sample_row 1 20, (sample_row 2 10)\<lparr>image_path := ''/uploads/cd34.png''\<rparr>]
     [(sample_row 2 10)\<lparr>image_path := ''/uploads/cd34.png''\<rparr>, sample_row 1 20] \<and>
   get_history int_repr [sample_row 1 20, (sample_row 2 10)\<lparr>image_path := ''/uploads/cd34.png''\<rparr>] =
     [\<lparr>h_id = 1, h_image_path = ''/uploads/ab12.png'', h_damage_type = ''Unknown'',
       h_location = [], h_cost_inr = Fin 0, h_cost_usd = Fin 0, h_cost_yen = Fin 0,
       h_created_at = ''20''\<rparr>,
      \<lparr>h_id = 2, h_image_path = ''/uploads/cd34.png'', h_damage_type = ''Unknown'',
       h_location = [], h_cost_inr = Fin 0, h_cost_usd = Fin 0, h_cost_yen = Fin 0,
       h_created_at = ''10''\<rparr>]"
proof (intro conjI)
  have a1: "snd (analyze sample_runtime ((sample_env ''{}'' None)\<lparr>now := 20\<rparr>) empty_store) =
      \<lparr>rows = [sample_row 1 20], uploads = [(''ab12.png'', ''bytes'')]\<rparr>"
    by (simp add: analyze_eval normalize_eval parse_number_from_string_def)
  show "rows (snd (analyze sample_runtime ((sample_env ''{}'' None)\<lparr>uuid_hex := ''cd34'', now := 10\<rparr>)
           (snd (analyze sample_runtime ((sample_env ''{}'' None)\<lparr>now := 20\<rparr>) empty_store)))) =
     [sample_row 1 20, (sample_row 2 10)\<lparr>image_path := ''/uploads/cd34.png''\<rparr>]"
    unfolding a1
    by (simp add: analyze_eval normalize_eval parse_number_from_string_def)
next
  show "order_by_created_at_desc
     [sample_row 1 20, (sample_row 2 10)\<lparr>image_path := ''/uploads/cd34.png''\<rparr>]
     [sample_row 1 20, (sample_row 2 10)\<lparr>image_path := ''/uploads/cd34.png''\<rparr>]"
    by (simp add: order_by_created_at_desc_def sample_row_def)
next
  show "\<not> order_by_created_at_desc
     [sample_row 1 20, (sample_row 2 10)\<lparr>image_path := ''/uploads/cd34.png''\<rparr>]
     [(sample_row 2 10)\<lparr>image_path := ''/uploads/cd34.png''\<rparr>, sample_row 1 20]"
    by (simp add: order_by_created_at_desc_def sample_row_def)
next
  show "get_history int_repr [sample_row 1 20, (sample_row 2 10)\<lparr>image_path := ''/uploads/cd34.png''\<rparr>] =
     [\<lparr>h_id = 1, h_image_path = ''/uploads/ab12.png'', h_damage_type = ''Unknown'',
       h_location = [], h_cost_inr = Fin 0, h_cost_usd = Fin 0, h_cost_yen = Fin 0,
       h_created_at = ''20''\<rparr>,
      \<lparr>h_id = 2, h_image_path = ''/uploads/cd34.png'', h_damage_type = ''Unknown'',
       h_location = [], h_cost_inr = Fin 0, h_cost_usd = Fin 0, h_cost_yen = Fin 0,
       h_created_at = ''10''\<rparr>]"
    by (simp add: get_history_def history_out_def sample_row_def int_repr_def
        digits_of_nat.simps digit_char_def)
qed

text \<open>
  Claim C1, as amended. Whatever step of \<open>analyze\<close> raises, the call returns the payload
  \<open>{"analysis": {"error": str(e)}}\<close>. When the exception \<open>e\<close> comes from reading the upload,
  from the file name, from writing the file, from the model client, from the normalizer,
  from the join of the damage labels, from binding the location or from the commit, the
  table has the rows it had before the call. When the commit has succeeded and
  \<open>db.refresh\<close> raises, the payload is the same error and the table has one more row, the
  one of this request.
\<close>

theorem analyze_failure_containment:
  "(read_res ev = Inl e \<longrightarrow> analyze rt ev st = (Response (ErrorPayload (exn_str e)), st)) \<and>
   (\<forall>c. read_res ev = Inr c \<longrightarrow>
     (ext_res ev = Inl e \<longrightarrow> analyze rt ev st = (Response (ErrorPayload (exn_str e)), st)) \<and>
     (\<forall>x. ext_res ev = Inr x \<longrightarrow>
       (write_res ev = Some e \<longrightarrow> analyze rt ev st = (Response (ErrorPayload (exn_str e)), st)) \<and>
       (write_res ev = None \<longrightarrow>
         (generate_res ev = Inl e \<longrightarrow>
            fst (analyze rt ev st) = Response (ErrorPayload (exn_str e)) \<and>
            rows (snd (analyze rt ev st)) = rows st) \<and>
         (\<forall>t. generate_res ev = Inr t \<longrightarrow>
           (normalize_analysis rt (decode rt t) = Inl e \<longrightarrow>
              fst (analyze rt ev st) = Response (ErrorPayload (exn_str e)) \<and>
              rows (snd (analyze rt ev st)) = rows st) \<and>
           (\<forall>n. normalize_analysis rt (decode rt t) = Inr n \<longrightarrow>
             (damage_str (damage_type n) = Inl e \<longrightarrow>
                fst (analyze rt ev st) = Response (ErrorPayload (exn_str e)) \<and>
                rows (snd (analyze rt ev st)) = rows st) \<and>
             (\<forall>d. damage_str (damage_type n) = Inr d \<longrightarrow>
               ((\<forall>s. por (location n) (JStr []) \<noteq> JStr s) \<and>
                bind_text ev (por (location n) (JStr [])) = Inl e \<longrightarrow>
                  fst (analyze rt ev st) = Response (ErrorPayload (exn_str e)) \<and>
                  rows (snd (analyze rt ev st)) = rows st) \<and>
               (\<forall>l. por (location n) (JStr []) = JStr l \<or>
                    (\<forall>s. por (location n) (JStr []) \<noteq> JStr s) \<and>
                    bind_text ev (por (location n) (JStr [])) = Inr l \<longrightarrow>
                 (commit_res ev = Some e \<longrightarrow>
                    fst (analyze rt ev st) = Response (ErrorPayload (exn_str e)) \<and>
                    rows (snd (analyze rt ev st)) = rows st) \<and>
                 (commit_res ev = None \<and> refresh_res ev = Some e \<longrightarrow>
                    fst (analyze rt ev st) = Response (ErrorPayload (exn_str e)) \<and>
                    (\<exists>i. rows (snd (analyze rt ev st)) = rows st @
                      [\<lparr>row_id = i,
                        image_path = ''/uploads/'' @ uuid_hex ev @ (if x \<noteq> [] then x else ''.png''),
                        row_damage_type = d, row_location = l,
                        row_cost_inr = (if float_truthy (cost_inr n) then cost_inr n else Fin 0),
                        row_cost_usd = (if float_truthy (cost_usd n) then cost_usd n else Fin 0),
                        row_cost_yen = (if float_truthy (cost_yen n) then cost_yen n else Fin 0),
                        created_at = now ev\<rparr>])))))))))"
  by (auto simp: analyze_def analyze_body_def analyze_damage_bytes_def float_or_zero_def Let_def
           split: json.splits)

theorem analyze_failure_containment_witness:
  "(fst (analyze sample_runtime
           ((sample_env ''{}'' None)\<lparr>generate_res := Inl (External ''model unavailable'')\<rparr>)
           empty_store) = Response (ErrorPayload ''model unavailable'') \<and>
    rows (snd (analyze sample_runtime
           ((sample_env ''{}'' None)\<lparr>generate_res := Inl (External ''model unavailable'')\<rparr>)
           empty_store)) = []) \<and>
   (fst (analyze sample_runtime
           ((sample_env ''{}'' None)\<lparr>commit_res := Some (External ''disk full'')\<rparr>)
           empty_store) = Response (ErrorPayload ''disk full'') \<and>
    rows (snd (analyze sample_runtime
           ((sample_env ''{}'' None)\<lparr>commit_res := Some (External ''disk full'')\<rparr>)
           empty_store)) = []) \<and>
   (fst (analyze sample_runtime (sample_env ''{}'' (Some (External ''database is locked'')))
           empty_store) = Response (ErrorPayload ''database is locked'') \<and>
    (\<exists>i. rows (snd (analyze sample_runtime
                 (sample_env ''{}'' (Some (External ''database is locked''))) empty_store)) =
       [\<lparr>row_id = i, image_path = ''/uploads/ab12.png'', row_damage_type = ''Unknown'',
         row_location = [], row_cost_inr = Fin 0, row_cost_usd = Fin 0, row_cost_yen = Fin 0,
         created_at = 1\<rparr>]))"
proof (intro conjI)
  have n: "normalize_analysis sample_runtime (decode sample_runtime ''{}'') =
      Inr \<lparr>damage_type = JStr ''Unknown'', location = JStr [], cost_inr = Fin 0,
           cost_usd = Fin 0, cost_yen = Fin 0, notes = JStr []\<rparr>"
    by (simp add: decode_def sample_runtime_def normalize_eval parse_number_from_string_def)
  note g = analyze_failure_containment
    [where rt = sample_runtime and st = empty_store and e = "External ''model unavailable''"
       and ev = "(sample_env ''{}'' None)\<lparr>generate_res := Inl (External ''model unavailable'')\<rparr>"]
  note c = analyze_failure_containment
    [where rt = sample_runtime and st = empty_store and e = "External ''disk full''"
       and ev = "(sample_env ''{}'' None)\<lparr>commit_res := Some (External ''disk full'')\<rparr>"]
  note r = analyze_failure_containment
    [where rt = sample_runtime and st = empty_store and e = "External ''database is locked''"
       and ev = "sample_env ''{}'' (Some (External ''database is locked''))"]
  show "fst (analyze sample_runtime
           ((sample_env ''{}'' None)\<lparr>generate_res := Inl (External ''model unavailable'')\<rparr>)
           empty_store) = Response (ErrorPayload ''model unavailable'')"
    using g by (simp add: sample_env_def)
  show "rows (snd (analyze sample_runtime
           ((sample_env ''{}'' None)\<lparr>generate_res := Inl (External ''model unavailable'')\<rparr>)
           empty_store)) = []"
    using g by (simp add: sample_env_def empty_store_def)
  show "fst (analyze sample_runtime
           ((sample_env ''{}'' None)\<lparr>commit_res := Some (External ''disk full'')\<rparr>)
           empty_store) = Response (ErrorPayload ''disk full'')"
    using c n by (simp add: sample_env_def damage_str_def por_def)
  show "rows (snd (analyze sample_runtime
           ((sample_env ''{}'' None)\<lparr>commit_res := Some (External ''disk full'')\<rparr>)
           empty_store)) = []"
    using c n by (simp add: sample_env_def empty_store_def damage_str_def por_def)
  show "fst (analyze sample_runtime (sample_env ''{}'' (Some (External ''database is locked'')))
           empty_store) = Response (ErrorPayload ''database is locked'')"
    using r n by (simp add: sample_env_def damage_str_def por_def)
  show "\<exists>i. rows (snd (analyze sample_runtime
                 (sample_env ''{}'' (Some (External ''database is locked''))) empty_store)) =
       [\<lparr>row_id = i, image_path = ''/uploads/ab12.png'', row_damage_type = ''Unknown'',
         row_location = [], row_cost_inr = Fin 0, row_cost_usd = Fin 0, row_cost_yen = Fin 0,
         created_at = 1\<rparr>]"
    using r n by (simp add: sample_env_def empty_store_def damage_str_def por_def)
qed

text \<open>
  Claim C1 as stated, that no record is written whenever an exception is raised during
  \<open>analyze\<close>, fails for an exception of \<open>db.refresh(entry)\<close>: the commit precedes it, so the
  caller receives the error payload and the row is in the table.
\<close>

theorem analyze_refresh_failure_counterexample:
  "analyze sample_runtime (sample_env ''{}'' (Some (External ''database is locked''))) empty_store =
     (Response (ErrorPayload ''database is locked''),
      \<lparr>rows = [\<lparr>row_id = 1, image_path = ''/uploads/ab12.png'', row_damage_type = ''Unknown'',
                 row_location = [], row_cost_inr = Fin 0, row_cost_usd = Fin 0,
                 row_cost_yen = Fin 0, created_at = 1\<rparr>],
        uploads = [(''ab12.png'', ''bytes'')]\<rparr>)"
  by (simp add: analyze_eval normalize_eval parse_number_from_string_def)








end
